theory Spec2Isabelle
  imports Main
begin

section \<open>Data model\<close>

text \<open>
  The adapter is a Go program. Strings are byte strings (\<open>string\<close>), a Go \<open>int\<close> that
  holds an HTTP status code or a length is an \<open>int\<close>, and an instant of time is the
  number of nanoseconds since the Unix epoch.

  A Go slice can be \<open>nil\<close>, and \<open>encoding/json\<close> writes a nil slice as \<open>null\<close> and an
  empty non-nil one as \<open>[]\<close>; a slice is therefore a \<open>list option\<close>, \<open>None\<close> being nil.
\<close>

type_synonym 'a slice = "'a list option"

definition elems :: "'a slice \<Rightarrow> 'a list" where
  "elems xs = (case xs of None \<Rightarrow> [] | Some ys \<Rightarrow> ys)"

text \<open>\<open>internal/llamastack/client.go\<close>: the upstream record and the upstream reply.\<close>

record LlamaStackModel =
  ls_ID :: string
  ls_Name :: string
  ls_Description :: string
  ls_Provider :: string
  ls_Type :: string

record LlamaStackResponse =
  Models :: "LlamaStackModel slice"

text \<open>
  \<open>openai.Model\<close> of the openai-go library, with the four fields that \<open>ListModels\<close>
  assigns.
\<close>

record Model =
  m_ID :: string
  m_Object :: string
  m_Created :: int
  m_OwnedBy :: string

record Client =
  endpoint :: string
  apiKey :: string

definition NewClient :: "string \<Rightarrow> string \<Rightarrow> Client" where
  "NewClient ep key = \<lparr>endpoint = ep, apiKey = key\<rparr>"

text \<open>\<open>internal/models/types.go\<close>.\<close>

record ModelsResponse =
  mr_Object :: string
  mr_Data :: "Model slice"

record Error =
  e_Message :: string
  e_Type :: string
  e_Code :: string

record ErrorResponse =
  er_Error :: Error

definition NewModelsResponse :: "Model slice \<Rightarrow> ModelsResponse" where
  "NewModelsResponse models = \<lparr>mr_Object = ''list'', mr_Data = models\<rparr>"

definition NewErrorResponse :: "string \<Rightarrow> string \<Rightarrow> ErrorResponse" where
  "NewErrorResponse message errorType =
     \<lparr>er_Error = \<lparr>e_Message = message, e_Type = errorType, e_Code = []\<rparr>\<rparr>"

text \<open>\<open>internal/config/config.go\<close>.\<close>

record Config =
  Address :: string
  Port :: string
  LlamaStackEndpoint :: string
  LlamaStackAPIKey :: string
  EnableAuth :: bool
  LogLevel :: string
  LogJSON :: bool

text \<open>
  \<open>os.Getenv\<close> is a function from variable names to values, the empty string for a
  variable that is not set.
\<close>

definition getEnvOrDefault :: "(string \<Rightarrow> string) \<Rightarrow> string \<Rightarrow> string \<Rightarrow> string" where
  "getEnvOrDefault getenv key defaultValue =
     (let v = getenv key in if v \<noteq> [] then v else defaultValue)"

definition LoadConfig :: "(string \<Rightarrow> string) \<Rightarrow> string + Config" where
  "LoadConfig getenv =
     (let cfg = \<lparr>Address = getEnvOrDefault getenv ''ADAPTER_ADDRESS'' ''0.0.0.0'',
                 Port = getEnvOrDefault getenv ''ADAPTER_PORT'' ''8080'',
                 LlamaStackEndpoint = getEnvOrDefault getenv ''LLAMASTACK_ENDPOINT'' [],
                 LlamaStackAPIKey = getEnvOrDefault getenv ''LLAMASTACK_API_KEY'' [],
                 EnableAuth = (getEnvOrDefault getenv ''ENABLE_AUTH'' ''true'' = ''true''),
                 LogLevel = getEnvOrDefault getenv ''LOG_LEVEL'' ''info'',
                 LogJSON = (getEnvOrDefault getenv ''LOG_JSON'' ''false'' = ''true'')\<rparr>
      in if LlamaStackEndpoint cfg = [] then Inl ''LLAMASTACK_ENDPOINT is required''
         else Inr cfg)"

section \<open>Errors, panics and effects\<close>

text \<open>
  Every \<open>fmt.Errorf\<close> of the client is a constructor that keeps the arguments of the
  format; a wrapped error of the standard library is kept as its message.
\<close>

datatype error =
    CreateRequestFailed string
  | RequestFailed string
  | StatusError int string
  | DecodeFailed string
  | HealthCreateRequestFailed string
  | HealthCheckFailed string
  | HealthStatusError int

datatype AuthError = AuthError (Message: string)

text \<open>A slice expression whose bounds are out of range stops the goroutine.\<close>

datatype panic = SliceBoundsOutOfRange

record http_request =
  req_method :: string
  req_url :: string
  req_header :: "(string \<times> string) list"

record http_response =
  StatusCode :: int
  Body :: string

datatype level = Debug | Info | Warn | Err

datatype logarg = S string | I int | E error | A AuthError | D int

datatype event =
    Log level string "logarg list"
  | GetHeader string
  | HttpDo http_request

text \<open>
  What the program calls but does not define: the standard library's URL check in
  \<open>http.NewRequestWithContext\<close>, the network behind \<open>httpClient.Do\<close> (a transport
  failure or a reply), the JSON decoder, the clock (the reading of the k-th call of
  \<open>time.Now\<close>), \<open>Duration.String\<close>, and the package variable \<open>startTime\<close> of the
  handlers, set once when the process starts.
\<close>

record world =
  url_error :: "string \<Rightarrow> string option"
  do_request :: "http_request \<Rightarrow> string + http_response"
  decode :: "string \<Rightarrow> string + LlamaStackResponse"
  clock :: "nat \<Rightarrow> int"
  duration_String :: "int \<Rightarrow> string"
  pkg_startTime :: int

record state =
  ticks :: nat
  trace :: "event list"

definition emit :: "event \<Rightarrow> state \<Rightarrow> state" where
  "emit e s = s\<lparr>trace := trace s @ [e]\<rparr>"

definition time_Now :: "world \<Rightarrow> state \<Rightarrow> int \<times> state" where
  "time_Now w s = (clock w (ticks s), s\<lparr>ticks := Suc (ticks s)\<rparr>)"

definition Unix :: "int \<Rightarrow> int" where
  "Unix t = t div 1000000000"

section \<open>Upstream client\<close>

text \<open>
  \<open>s[len(s)-1:]\<close>: the slice from index \<open>len(s) - 1\<close>, a run-time panic when \<open>s\<close> is
  empty and the index is \<open>-1\<close>.
\<close>

definition last_byte :: "string \<Rightarrow> panic + string" where
  "last_byte s = (if int (length s) - 1 < 0 then Inl SliceBoundsOutOfRange
                  else Inr (drop (length s - 1) s))"

text \<open>The local \<open>url\<close> of \<open>ListModels\<close> and of \<open>Health\<close>.\<close>

definition ListModels_url :: "string \<Rightarrow> panic + string" where
  "ListModels_url ep =
     (let url = ep @ ''/v1/models'' in
      case last_byte ep of
        Inl p \<Rightarrow> Inl p
      | Inr l \<Rightarrow> Inr (if l = ''/'' then ep @ ''v1/models'' else url))"

definition Health_url :: "string \<Rightarrow> panic + string" where
  "Health_url ep =
     (let url = ep @ ''/health'' in
      case last_byte ep of
        Inl p \<Rightarrow> Inl p
      | Inr l \<Rightarrow> Inr (if l = ''/'' then ep @ ''health'' else url))"

definition NewRequestWithContext :: "world \<Rightarrow> string \<Rightarrow> string \<Rightarrow> string + http_request" where
  "NewRequestWithContext w method url =
     (case url_error w url of
        Some err \<Rightarrow> Inl err
      | None \<Rightarrow> Inr \<lparr>req_method = method, req_url = url, req_header = []\<rparr>)"

definition Header_Set :: "string \<Rightarrow> string \<Rightarrow> http_request \<Rightarrow> http_request" where
  "Header_Set k v req = req\<lparr>req_header := req_header req @ [(k, v)]\<rparr>"

text \<open>The conversion loop of \<open>ListModels\<close>: one reading of the clock for each model.\<close>

fun convert :: "world \<Rightarrow> LlamaStackModel list \<Rightarrow> Model list \<Rightarrow> state \<Rightarrow> Model list \<times> state" where
  "convert w [] openaiModels s = (openaiModels, s)"
| "convert w (model # rest) openaiModels s =
     (let (t, s') = time_Now w s;
          openaiModel = \<lparr>m_ID = ls_ID model, m_Object = ''model'',
                         m_Created = Unix t, m_OwnedBy = ''llamastack''\<rparr>
      in convert w rest (openaiModels @ [openaiModel]) s')"

definition ListModels :: "world \<Rightarrow> Client \<Rightarrow> state \<Rightarrow> (panic + (error + Model list)) \<times> state" where
  "ListModels w c s0 =
     (let s1 = emit (Log Debug ''Fetching models from LlamaStack endpoint: %s'' [S (endpoint c)]) s0 in
      case ListModels_url (endpoint c) of
        Inl p \<Rightarrow> (Inl p, s1)
      | Inr url \<Rightarrow>
         (case NewRequestWithContext w ''GET'' url of
            Inl err \<Rightarrow> (Inr (Inl (CreateRequestFailed err)), s1)
          | Inr req0 \<Rightarrow>
             (let req1 = (if apiKey c \<noteq> [] then Header_Set ''Authorization'' (''Bearer '' @ apiKey c) req0
                          else req0);
                  req = Header_Set ''Content-Type'' ''application/json'' req1;
                  s2 = emit (HttpDo req) s1
              in case do_request w req of
                   Inl err \<Rightarrow> (Inr (Inl (RequestFailed err)), s2)
                 | Inr resp \<Rightarrow>
                    if StatusCode resp \<noteq> 200
                    then (Inr (Inl (StatusError (StatusCode resp) (Body resp))), s2)
                    else (case decode w (Body resp) of
                            Inl err \<Rightarrow> (Inr (Inl (DecodeFailed err)), s2)
                          | Inr llamaResponse \<Rightarrow>
                             (let (openaiModels, s3) = convert w (elems (Models llamaResponse)) [] s2;
                                  s4 = emit (Log Debug ''Successfully converted %d LlamaStack models to OpenAI format''
                                               [I (int (length openaiModels))]) s3
                              in (Inr (Inr openaiModels), s4))))))"

definition Health :: "world \<Rightarrow> Client \<Rightarrow> state \<Rightarrow> (panic + error option) \<times> state" where
  "Health w c s0 =
     (case Health_url (endpoint c) of
        Inl p \<Rightarrow> (Inl p, s0)
      | Inr url \<Rightarrow>
         (case NewRequestWithContext w ''GET'' url of
            Inl err \<Rightarrow> (Inr (Some (HealthCreateRequestFailed err)), s0)
          | Inr req0 \<Rightarrow>
             (let req = (if apiKey c \<noteq> [] then Header_Set ''Authorization'' (''Bearer '' @ apiKey c) req0
                         else req0);
                  s1 = emit (HttpDo req) s0
              in case do_request w req of
                   Inl err \<Rightarrow> (Inr (Some (HealthCheckFailed err)), s1)
                 | Inr resp \<Rightarrow>
                    if 200 \<le> StatusCode resp \<and> StatusCode resp < 300 then (Inr None, s1)
                    else (Inr (Some (HealthStatusError (StatusCode resp))), s1))))"

section \<open>Handlers\<close>

text \<open>
  What a handler reads of the \<open>gin.Context\<close>: the caller's address and the request
  headers, a map from canonical header names to their values. \<open>c.GetHeader\<close> returns
  the first value of the header, and the empty string when there is none.
\<close>

record Context =
  ClientIP :: string
  Header :: "string \<Rightarrow> string list option"

definition GetHeader_ctx :: "Context \<Rightarrow> string \<Rightarrow> state \<Rightarrow> string \<times> state" where
  "GetHeader_ctx c key s =
     ((case Header c key of None \<Rightarrow> [] | Some [] \<Rightarrow> [] | Some (v # _) \<Rightarrow> v),
      emit (GetHeader key) s)"

definition HasPrefix :: "string \<Rightarrow> string \<Rightarrow> bool" where
  "HasPrefix s p = (length p \<le> length s \<and> take (length p) s = p)"

definition TrimPrefix :: "string \<Rightarrow> string \<Rightarrow> string" where
  "TrimPrefix s p = (if HasPrefix s p then drop (length p) s else s)"

definition min_int :: "int \<Rightarrow> int \<Rightarrow> int" where
  "min_int a b = (if a < b then a else b)"

text \<open>The values of a \<open>gin.H\<close> and the objects handed to \<open>c.JSON\<close>.\<close>

datatype any = AnyBool bool | AnyString string | AnyTime int

record HealthResponse =
  h_Status :: string
  h_Timestamp :: int
  h_Services :: "(string \<times> string) list"
  h_Version :: string
  h_Uptime :: string

datatype body =
    ErrorBody ErrorResponse
  | ModelsBody ModelsResponse
  | HealthBody HealthResponse
  | H "(string \<times> any) list"

record response =
  status :: int
  body :: body

record ModelsHandler =
  mh_llamaClient :: Client
  mh_enableAuth :: bool

record HealthHandler =
  hh_llamaClient :: Client

definition NewModelsHandler :: "Client \<Rightarrow> bool \<Rightarrow> ModelsHandler" where
  "NewModelsHandler cl auth = \<lparr>mh_llamaClient = cl, mh_enableAuth = auth\<rparr>"

definition NewHealthHandler :: "Client \<Rightarrow> HealthHandler" where
  "NewHealthHandler cl = \<lparr>hh_llamaClient = cl\<rparr>"


definition validateAuth :: "Context \<Rightarrow> state \<Rightarrow> AuthError option \<times> state" where
  "validateAuth c s0 =
     (let (authHeader, s1) = GetHeader_ctx c ''Authorization'' s0 in
      if authHeader = [] then (Some (AuthError ''Missing Authorization header''), s1)
      else if \<not> HasPrefix authHeader ''Bearer ''
      then (Some (AuthError ''Invalid Authorization header format''), s1)
      else (let token = TrimPrefix authHeader ''Bearer '' in
            if token = [] then (Some (AuthError ''Empty token''), s1)
            else (None, emit (Log Debug ''Validated token: %s...''
                                [S (take (nat (min_int (int (length token)) 10)) token)]) s1)))"

definition HandleListModels ::
    "world \<Rightarrow> ModelsHandler \<Rightarrow> Context \<Rightarrow> state \<Rightarrow> (panic + response) \<times> state" where
  "HandleListModels w h c s0 =
     (let (startTime, s1) = time_Now w s0;
          s2 = emit (Log Info ''Received models list request from %s'' [S (ClientIP c)]) s1;
          (authErr, s3) = (if mh_enableAuth h then validateAuth c s2 else (None, s2))
      in case authErr of
           Some err \<Rightarrow>
             (Inr \<lparr>status = 401,
                   body = ErrorBody (NewErrorResponse ''Authentication required'' ''authentication_error'')\<rparr>,
              emit (Log Warn ''Authentication failed: %v'' [A err]) s3)
         | None \<Rightarrow>
             (case ListModels w (mh_llamaClient h) s3 of
                (Inl p, s4) \<Rightarrow> (Inl p, s4)
              | (Inr (Inl err), s4) \<Rightarrow>
                  (Inr \<lparr>status = 500,
                        body = ErrorBody (NewErrorResponse ''Failed to retrieve models from external service''
                                            ''internal_error'')\<rparr>,
                   emit (Log Err ''Failed to fetch models from LlamaStack: %v'' [E err]) s4)
              | (Inr (Inr llamaModels), s4) \<Rightarrow>
                  (let resp = NewModelsResponse (Some llamaModels);
                       (t, s5) = time_Now w s4;
                       duration = t - startTime;
                       s6 = emit (Log Info ''Successfully returned %d models in %v''
                                    [I (int (length llamaModels)), D duration]) s5
                   in (Inr \<lparr>status = 200, body = ModelsBody resp\<rparr>, s6))))"



definition HandleLiveness ::
    "world \<Rightarrow> HealthHandler \<Rightarrow> Context \<Rightarrow> state \<Rightarrow> (panic + response) \<times> state" where
  "HandleLiveness w h c s0 =
     (let (t, s1) = time_Now w s0
      in (Inr \<lparr>status = 200, body = H [(''alive'', AnyBool True), (''timestamp'', AnyTime t)]\<rparr>, s1))"

section \<open>The JSON written by \<open>c.JSON\<close>\<close>

text \<open>
  \<open>encoding/json\<close> on the response objects, following the struct tags: a field tagged
  \<open>omitempty\<close> is left out when it is the empty string, a nil slice is \<open>null\<close>, a
  \<open>time.Time\<close> is kept as its instant (the encoder prints it in RFC 3339). The keys of a
  map are written in sorted order; the association lists above hold them so.
\<close>

datatype json =
    JNull
  | JBool bool
  | JNumber int
  | JString string
  | JTime int
  | JArray "json list"
  | JObject "(string \<times> json) list"

definition omitempty :: "string \<Rightarrow> string \<Rightarrow> (string \<times> json) list" where
  "omitempty k v = (if v = [] then [] else [(k, JString v)])"

text \<open>
  The \<open>object\<close> field of \<open>openai.Model\<close> is the library's constant type, which writes its
  zero value (the empty string) as \<open>model\<close>.
\<close>

definition encode_Model :: "Model \<Rightarrow> json" where
  "encode_Model m = JObject [(''id'', JString (m_ID m)), (''created'', JNumber (m_Created m)),
                             (''object'', JString (if m_Object m = [] then ''model'' else m_Object m)),
                             (''owned_by'', JString (m_OwnedBy m))]"

definition encode_ModelsResponse :: "ModelsResponse \<Rightarrow> json" where
  "encode_ModelsResponse r =
     JObject [(''object'', JString (mr_Object r)),
              (''data'', case mr_Data r of None \<Rightarrow> JNull | Some ms \<Rightarrow> JArray (map encode_Model ms))]"

definition encode_Error :: "Error \<Rightarrow> json" where
  "encode_Error e = JObject ([(''message'', JString (e_Message e)), (''type'', JString (e_Type e))]
                             @ omitempty ''code'' (e_Code e))"

definition encode_ErrorResponse :: "ErrorResponse \<Rightarrow> json" where
  "encode_ErrorResponse r = JObject [(''error'', encode_Error (er_Error r))]"

definition encode_HealthResponse :: "HealthResponse \<Rightarrow> json" where
  "encode_HealthResponse r =
     JObject ([(''status'', JString (h_Status r)), (''timestamp'', JTime (h_Timestamp r)),
               (''services'', JObject (map (\<lambda>(k, v). (k, JString v)) (h_Services r)))]
              @ omitempty ''version'' (h_Version r) @ omitempty ''uptime'' (h_Uptime r))"

fun encode_any :: "any \<Rightarrow> json" where
  "encode_any (AnyBool b) = JBool b"
| "encode_any (AnyString s) = JString s"
| "encode_any (AnyTime t) = JTime t"

fun encode :: "body \<Rightarrow> json" where
  "encode (ErrorBody r) = encode_ErrorResponse r"
| "encode (ModelsBody r) = encode_ModelsResponse r"
| "encode (HealthBody r) = encode_HealthResponse r"
| "encode (H m) = JObject (map (\<lambda>(k, v). (k, encode_any v)) m)"

fun field :: "json \<Rightarrow> string \<Rightarrow> json option" where
  "field (JObject kvs) k = map_of kvs k"
| "field _ k = None"


section \<open>Notions used in the statements\<close>

text \<open>
  The public record that the loop of \<open>ListModels\<close> builds for the i-th upstream record
  when the loop starts at clock reading \<open>k\<close>.
\<close>

definition translate :: "world \<Rightarrow> nat \<Rightarrow> LlamaStackModel list \<Rightarrow> nat \<Rightarrow> Model" where
  "translate w k ms i = \<lparr>m_ID = ls_ID (ms ! i), m_Object = ''model'',
       m_Created = Unix (clock w (k + i)), m_OwnedBy = ''llamastack''\<rparr>"

text \<open>The requests that \<open>ListModels\<close> and \<open>Health\<close> hand to \<open>httpClient.Do\<close> for a URL.\<close>

definition ListModels_request :: "Client \<Rightarrow> string \<Rightarrow> http_request" where
  "ListModels_request c url =
     \<lparr>req_method = ''GET'', req_url = url,
      req_header = (if apiKey c \<noteq> [] then [(''Authorization'', ''Bearer '' @ apiKey c)] else [])
                   @ [(''Content-Type'', ''application/json'')]\<rparr>"

definition Health_request :: "Client \<Rightarrow> string \<Rightarrow> http_request" where
  "Health_request c url =
     \<lparr>req_method = ''GET'', req_url = url,
      req_header = (if apiKey c \<noteq> [] then [(''Authorization'', ''Bearer '' @ apiKey c)] else [])\<rparr>"

text \<open>Which events of a trace are upstream calls, and which are reads of a request header.\<close>

fun is_HttpDo :: "event \<Rightarrow> bool" where
  "is_HttpDo (HttpDo r) = True"
| "is_HttpDo _ = False"

fun is_GetHeader :: "event \<Rightarrow> bool" where
  "is_GetHeader (GetHeader k) = True"
| "is_GetHeader _ = False"

text \<open>A concrete upstream, client, request and start state, to run the program on.\<close>

definition demo_models :: "LlamaStackModel list" where
  "demo_models =
     [\<lparr>ls_ID = ''llama-3.1-8b'', ls_Name = ''Llama'', ls_Description = [], ls_Provider = ''meta'', ls_Type = ''llm''\<rparr>,
      \<lparr>ls_ID = ''granite-7b'', ls_Name = [], ls_Description = [], ls_Provider = ''ibm'', ls_Type = []\<rparr>]"

definition demo_world :: "int \<Rightarrow> world" where
  "demo_world code =
     \<lparr>url_error = (\<lambda>u. None),
      do_request = (\<lambda>r. Inr \<lparr>StatusCode = code, Body = ''{}''\<rparr>),
      decode = (\<lambda>b. Inr \<lparr>Models = Some demo_models\<rparr>),
      clock = (\<lambda>k. 1700000000000000000 + 1000000000 * int k),
      duration_String = (\<lambda>d. ''1s''),
      pkg_startTime = 1700000000000000000\<rparr>"

definition down_world :: world where
  "down_world = (demo_world 200)\<lparr>do_request := (\<lambda>r. Inl ''connection refused'')\<rparr>"

definition demo_client :: Client where
  "demo_client = NewClient ''http://ls:8321'' ''key''"

definition demo_ctx :: "string list option \<Rightarrow> Context" where
  "demo_ctx v = \<lparr>ClientIP = ''10.0.0.7'', Header = (\<lambda>k. if k = ''Authorization'' then v else None)\<rparr>"

definition init :: state where
  "init = \<lparr>ticks = 0, trace = []\<rparr>"

text \<open>An environment that sets only the upstream endpoint.\<close>

definition demo_env :: "string \<Rightarrow> string" where
  "demo_env k = (if k = ''LLAMASTACK_ENDPOINT'' then ''http://ls:8321'' else [])"

section \<open>Basic facts about the client and the handlers\<close>

lemma last_byte_Nil: "last_byte [] = Inl SliceBoundsOutOfRange"
  by (simp add: last_byte_def)

lemma last_byte_nonempty: "s \<noteq> [] \<Longrightarrow> last_byte s = Inr [last s]"
proof -
  assume ne: "s \<noteq> []"
  then obtain ys y where s: "s = ys @ [y]" by (metis append_butlast_last_id)
  then show ?thesis by (simp add: last_byte_def)
qed

lemma ListModels_url_nonempty:
  "ep \<noteq> [] \<Longrightarrow> ListModels_url ep =
     Inr (if last ep = CHR ''/'' then ep @ ''v1/models'' else ep @ ''/v1/models'')"
  by (simp add: ListModels_url_def last_byte_nonempty)

lemma Health_url_nonempty:
  "ep \<noteq> [] \<Longrightarrow> Health_url ep =
     Inr (if last ep = CHR ''/'' then ep @ ''health'' else ep @ ''/health'')"
  by (simp add: Health_url_def last_byte_nonempty)

lemma convert_eq:
  "convert w ms acc s =
     (acc @ map (translate w (ticks s) ms) [0..<length ms], s\<lparr>ticks := ticks s + length ms\<rparr>)"
proof (induction ms arbitrary: acc s)
  case Nil
  show ?case by simp
next
  case (Cons m ms)
  show ?case
    by (simp add: Cons.IH time_Now_def map_upt_Suc translate_def del: upt_Suc)
qed

lemma ticks_emit [simp]: "ticks (emit e s) = ticks s"
  by (simp add: emit_def)

lemma trace_emit [simp]: "trace (emit e s) = trace s @ [e]"
  by (simp add: emit_def)

lemma ListModels_panic:
  "endpoint c = [] \<Longrightarrow> ListModels w c s = 
     (Inl SliceBoundsOutOfRange, emit (Log Debug ''Fetching models from LlamaStack endpoint: %s'' [S (endpoint c)]) s)"
  by (simp add: ListModels_def ListModels_url_def last_byte_def)

lemma ListModels_url_error:
  "ListModels_url (endpoint c) = Inr url \<Longrightarrow> url_error w url = Some err \<Longrightarrow>
   fst (ListModels w c s) = Inr (Inl (CreateRequestFailed err))"
  by (simp add: ListModels_def NewRequestWithContext_def)

lemma ListModels_transport:
  "ListModels_url (endpoint c) = Inr url \<Longrightarrow> url_error w url = None \<Longrightarrow>
   do_request w (ListModels_request c url) = Inl err \<Longrightarrow>
   fst (ListModels w c s) = Inr (Inl (RequestFailed err))"
  by (cases "apiKey c = []")
     (simp_all add: ListModels_def NewRequestWithContext_def ListModels_request_def Header_Set_def Let_def)

lemma ListModels_reply:
  "ListModels_url (endpoint c) = Inr url \<Longrightarrow> url_error w url = None \<Longrightarrow>
   do_request w (ListModels_request c url) = Inr resp \<Longrightarrow>
   fst (ListModels w c s) =
     (if StatusCode resp \<noteq> 200 then Inr (Inl (StatusError (StatusCode resp) (Body resp)))
      else case decode w (Body resp) of
             Inl err \<Rightarrow> Inr (Inl (DecodeFailed err))
           | Inr lr \<Rightarrow> Inr (Inr (map (translate w (ticks s) (elems (Models lr)))
                                    [0..<length (elems (Models lr))])))"
  by (cases "apiKey c = []")
     (simp_all add: ListModels_def NewRequestWithContext_def ListModels_request_def Header_Set_def Let_def
        convert_eq split: sum.splits)

lemma ListModels_fst_ticks:
  "ticks s = ticks s' \<Longrightarrow> fst (ListModels w c s) = fst (ListModels w c s')"
  by (simp add: ListModels_def Let_def convert_eq split: sum.splits)

lemma ListModels_url_panic:
  "ListModels_url (endpoint c) = Inl p \<Longrightarrow> fst (ListModels w c s) = Inl p"
  by (simp add: ListModels_def)

lemma ListModels_error_any_state:
  assumes "fst (ListModels w c s) = Inr (Inl e)"
  shows "fst (ListModels w c s') = Inr (Inl e)"
proof (cases "ListModels_url (endpoint c)")
  case (Inl p)
  then show ?thesis using assms by (simp add: ListModels_url_panic)
next
  case url: (Inr url)
  show ?thesis
  proof (cases "url_error w url")
    case (Some err)
    then show ?thesis using assms ListModels_url_error [OF url Some] by simp
  next
    case None
    show ?thesis
    proof (cases "do_request w (ListModels_request c url)")
      case (Inl err)
      then show ?thesis using assms ListModels_transport [OF url None Inl] by simp
    next
      case (Inr resp)
      show ?thesis
        using assms ListModels_reply [OF url None Inr, of s] ListModels_reply [OF url None Inr, of s']
        by (simp split: if_splits sum.splits)
    qed
  qed
qed


lemma validateAuth_fst_any_state: "fst (validateAuth c s) = fst (validateAuth c s')"
  by (simp add: validateAuth_def GetHeader_ctx_def Let_def)

lemma validateAuth_ticks [simp]: "ticks (snd (validateAuth c s)) = ticks s"
  by (simp add: validateAuth_def GetHeader_ctx_def Let_def)

lemma validateAuth_failed:
  "fst (validateAuth c s0) = Some err \<Longrightarrow>
   validateAuth c s = (Some err, emit (GetHeader ''Authorization'') s)"
  by (simp add: validateAuth_def GetHeader_ctx_def Let_def split: if_splits)

lemma validateAuth_reads_header:
  "\<exists>rest. trace (snd (validateAuth c s)) = trace s @ GetHeader ''Authorization'' # rest"
  by (simp add: validateAuth_def GetHeader_ctx_def Let_def)

lemma HandleListModels_fst:
  "fst (HandleListModels w h c s) =
     (case (if mh_enableAuth h then fst (validateAuth c s) else None) of
        Some err \<Rightarrow>
          Inr \<lparr>status = 401,
                body = ErrorBody (NewErrorResponse ''Authentication required'' ''authentication_error'')\<rparr>
      | None \<Rightarrow>
          (case fst (ListModels w (mh_llamaClient h) (s\<lparr>ticks := Suc (ticks s)\<rparr>)) of
             Inl p \<Rightarrow> Inl p
           | Inr (Inl err) \<Rightarrow>
               Inr \<lparr>status = 500,
                     body = ErrorBody (NewErrorResponse ''Failed to retrieve models from external service''
                                         ''internal_error'')\<rparr>
           | Inr (Inr ms) \<Rightarrow> Inr \<lparr>status = 200, body = ModelsBody (NewModelsResponse (Some ms))\<rparr>))"
proof -
  let ?s2 = "emit (Log Info ''Received models list request from %s'' [S (ClientIP c)])
               (s\<lparr>ticks := Suc (ticks s)\<rparr>)"
  obtain a s3 where va: "validateAuth c ?s2 = (a, s3)" by (cases "validateAuth c ?s2")
  have a: "a = fst (validateAuth c s)"
    using va validateAuth_fst_any_state [of c ?s2 s] by simp
  have t3: "ticks s3 = Suc (ticks s)"
    using va validateAuth_ticks [of c ?s2] by simp
  have L3: "fst (ListModels w (mh_llamaClient h) s3) =
            fst (ListModels w (mh_llamaClient h) (s\<lparr>ticks := Suc (ticks s)\<rparr>))"
    by (rule ListModels_fst_ticks) (simp add: t3)
  have L2: "fst (ListModels w (mh_llamaClient h) ?s2) =
            fst (ListModels w (mh_llamaClient h) (s\<lparr>ticks := Suc (ticks s)\<rparr>))"
    by (rule ListModels_fst_ticks) simp
  obtain r3 u3 where R3: "ListModels w (mh_llamaClient h) s3 = (r3, u3)"
    by (cases "ListModels w (mh_llamaClient h) s3")
  obtain r2 u2 where R2: "ListModels w (mh_llamaClient h) ?s2 = (r2, u2)"
    by (cases "ListModels w (mh_llamaClient h) ?s2")
  show ?thesis
    using L3 L2 a
    by (simp add: HandleListModels_def time_Now_def va R3 R2 Let_def
          split: option.splits sum.splits)
qed

lemma Health_panic:
  "endpoint c = [] \<Longrightarrow> Health w c s = (Inl SliceBoundsOutOfRange, s)"
  by (simp add: Health_def Health_url_def last_byte_def)

lemma Health_url_error:
  "Health_url (endpoint c) = Inr url \<Longrightarrow> url_error w url = Some err \<Longrightarrow>
   fst (Health w c s) = Inr (Some (HealthCreateRequestFailed err))"
  by (simp add: Health_def NewRequestWithContext_def)

lemma Health_transport:
  "Health_url (endpoint c) = Inr url \<Longrightarrow> url_error w url = None \<Longrightarrow>
   do_request w (Health_request c url) = Inl err \<Longrightarrow>
   fst (Health w c s) = Inr (Some (HealthCheckFailed err))"
  by (cases "apiKey c = []")
     (simp_all add: Health_def NewRequestWithContext_def Health_request_def Header_Set_def Let_def)

lemma Health_reply:
  "Health_url (endpoint c) = Inr url \<Longrightarrow> url_error w url = None \<Longrightarrow>
   do_request w (Health_request c url) = Inr resp \<Longrightarrow>
   fst (Health w c s) =
     (if 200 \<le> StatusCode resp \<and> StatusCode resp < 300 then Inr None
      else Inr (Some (HealthStatusError (StatusCode resp))))"
  by (cases "apiKey c = []")
     (simp_all add: Health_def NewRequestWithContext_def Health_request_def Header_Set_def Let_def)

lemma Health_ticks [simp]: "ticks (snd (Health w c s)) = ticks s"
  by (simp add: Health_def Let_def split: sum.splits)



lemma HandleLiveness_eq:
  "HandleLiveness w h c s =
     (Inr \<lparr>status = 200, body = H [(''alive'', AnyBool True), (''timestamp'', AnyTime (clock w (ticks s)))]\<rparr>,
      s\<lparr>ticks := Suc (ticks s)\<rparr>)"
  by (simp add: HandleLiveness_def time_Now_def)

lemma convert_trace: "trace (snd (convert w ms acc s)) = trace s"
  by (simp add: convert_eq)

lemma ListModels_no_GetHeader:
  "filter is_GetHeader (trace (snd (ListModels w c s))) = filter is_GetHeader (trace s)"
proof (cases "ListModels_url (endpoint c)")
  case (Inl p)
  then show ?thesis by (simp add: ListModels_def)
next
  case url: (Inr url)
  show ?thesis
  proof (cases "NewRequestWithContext w ''GET'' url")
    case (Inl err)
    then show ?thesis by (simp add: ListModels_def url)
  next
    case req0: (Inr req0)
    let ?req = "Header_Set ''Content-Type'' ''application/json''
                  (if apiKey c \<noteq> [] then Header_Set ''Authorization'' (''Bearer '' @ apiKey c) req0
                   else req0)"
    show ?thesis
    proof (cases "do_request w ?req")
      case (Inl err)
      then show ?thesis by (simp add: ListModels_def url req0 Let_def)
    next
      case resp: (Inr resp)
      show ?thesis
      proof (cases "decode w (Body resp)")
        case (Inl err)
        then show ?thesis by (simp add: ListModels_def url req0 resp Let_def)
      next
        case (Inr lr)
        then show ?thesis by (simp add: ListModels_def url req0 resp Let_def convert_eq)
      qed
    qed
  qed
qed

lemma HandleListModels_open_trace:
  assumes "\<not> mh_enableAuth h"
  shows "filter is_GetHeader (trace (snd (HandleListModels w h c s))) = filter is_GetHeader (trace s)"
proof -
  let ?s2 = "emit (Log Info ''Received models list request from %s'' [S (ClientIP c)])
               (s\<lparr>ticks := Suc (ticks s)\<rparr>)"
  obtain r u where R: "ListModels w (mh_llamaClient h) ?s2 = (r, u)"
    by (cases "ListModels w (mh_llamaClient h) ?s2")
  have "filter is_GetHeader (trace u) = filter is_GetHeader (trace s)"
    using ListModels_no_GetHeader [of w "mh_llamaClient h" ?s2] R by simp
  then show ?thesis
    using assms
    by (simp add: HandleListModels_def time_Now_def R Let_def split: sum.splits)
qed

lemma HandleListModels_rejected:
  assumes "mh_enableAuth h" and "fst (validateAuth c s) = Some err"
  shows "HandleListModels w h c s =
     (Inr \<lparr>status = 401,
           body = ErrorBody (NewErrorResponse ''Authentication required'' ''authentication_error'')\<rparr>,
      s\<lparr>ticks := Suc (ticks s),
        trace := trace s @ [Log Info ''Received models list request from %s'' [S (ClientIP c)],
                            GetHeader ''Authorization'',
                            Log Warn ''Authentication failed: %v'' [A err]]\<rparr>)"
  using assms(1) validateAuth_failed [OF assms(2)]
  by (simp add: HandleListModels_def time_Now_def emit_def)

lemma LoadConfig_endpoint:
  "LoadConfig getenv = Inr cfg \<Longrightarrow> LlamaStackEndpoint cfg \<noteq> []"
  by (auto simp: LoadConfig_def Let_def split: if_splits)

lemma ListModels_no_panic: "endpoint c \<noteq> [] \<Longrightarrow> \<exists>r. fst (ListModels w c s) = Inr r"
proof -
  assume "endpoint c \<noteq> []"
  then obtain url where url: "ListModels_url (endpoint c) = Inr url"
    by (simp add: ListModels_url_nonempty)
  show ?thesis
  proof (cases "url_error w url")
    case (Some err)
    then show ?thesis using ListModels_url_error [OF url Some, of s] by simp
  next
    case None
    show ?thesis
    proof (cases "do_request w (ListModels_request c url)")
      case (Inl err)
      then show ?thesis using ListModels_transport [OF url None Inl, of s] by simp
    next
      case (Inr resp)
      then show ?thesis using ListModels_reply [OF url None Inr, of s] by (simp split: sum.splits)
    qed
  qed
qed

lemma Health_no_panic: "endpoint c \<noteq> [] \<Longrightarrow> \<exists>r. fst (Health w c s) = Inr r"
proof -
  assume "endpoint c \<noteq> []"
  then obtain url where url: "Health_url (endpoint c) = Inr url"
    by (simp add: Health_url_nonempty)
  show ?thesis
  proof (cases "url_error w url")
    case (Some err)
    then show ?thesis using Health_url_error [OF url Some, of s] by simp
  next
    case None
    show ?thesis
    proof (cases "do_request w (Health_request c url)")
      case (Inl err)
      then show ?thesis using Health_transport [OF url None Inl, of s] by simp
    next
      case (Inr resp)
      then show ?thesis using Health_reply [OF url None Inr, of s] by simp
    qed
  qed
qed

lemmas demo_defs = demo_world_def demo_models_def demo_client_def demo_ctx_def init_def
  NewClient_def NewModelsHandler_def NewHealthHandler_def down_world_def

lemma HasPrefix_iff: "HasPrefix v p \<longleftrightarrow> (\<exists>t. v = p @ t)"
proof
  assume "HasPrefix v p"
  then have "v = p @ drop (length p) v"
    by (metis HasPrefix_def append_take_drop_id)
  then show "\<exists>t. v = p @ t" ..
next
  assume "\<exists>t. v = p @ t"
  then show "HasPrefix v p" by (auto simp: HasPrefix_def)
qed

lemma validateAuth_fst:
  "fst (validateAuth c s) =
     (let authHeader = (case Header c ''Authorization'' of None \<Rightarrow> [] | Some [] \<Rightarrow> [] | Some (v # _) \<Rightarrow> v) in
      if authHeader = [] then Some (AuthError ''Missing Authorization header'')
      else if \<not> HasPrefix authHeader ''Bearer '' then Some (AuthError ''Invalid Authorization header format'')
      else if TrimPrefix authHeader ''Bearer '' = [] then Some (AuthError ''Empty token'')
      else None)"
  by (simp add: validateAuth_def GetHeader_ctx_def Let_def)

lemma validateAuth_accepts_iff:
  "fst (validateAuth c s) = None \<longleftrightarrow>
     (\<exists>token vs. token \<noteq> [] \<and> Header c ''Authorization'' = Some ((''Bearer '' @ token) # vs))"
proof
  assume acc: "fst (validateAuth c s) = None"
  let ?hv = "case Header c ''Authorization'' of None \<Rightarrow> [] | Some [] \<Rightarrow> [] | Some (v # _) \<Rightarrow> v"
  from acc have ne: "?hv \<noteq> []" and pre: "HasPrefix ?hv ''Bearer ''"
    and tok: "TrimPrefix ?hv ''Bearer '' \<noteq> []"
    by (simp_all add: validateAuth_fst Let_def split: if_splits)
  from ne obtain vs where hd: "Header c ''Authorization'' = Some (?hv # vs)"
    by (auto split: option.splits list.splits)
  from pre obtain t where t: "?hv = ''Bearer '' @ t" unfolding HasPrefix_iff ..
  have "TrimPrefix ?hv ''Bearer '' = t"
    using pre by (subst t) (simp add: TrimPrefix_def HasPrefix_def)
  with tok have "t \<noteq> []" by simp
  with hd t show "\<exists>token vs. token \<noteq> [] \<and> Header c ''Authorization'' = Some ((''Bearer '' @ token) # vs)"
    by metis
next
  assume "\<exists>token vs. token \<noteq> [] \<and> Header c ''Authorization'' = Some ((''Bearer '' @ token) # vs)"
  then show "fst (validateAuth c s) = None"
    by (auto simp: validateAuth_fst HasPrefix_def TrimPrefix_def)
qed

section \<open>The claims\<close>

text \<open>
  Claim C1. When the upstream answers the list call with status 200 and a body that
  decodes to a model list of length N (N = 0 and a nil list included) and the request passes
  the auth gate, \<open>/v1/models\<close> answers 200 with an envelope tagged \<open>list\<close> whose data
  sequence has length N and carries the upstream identifiers in the upstream order. The data
  slice is never nil, so the JSON field \<open>data\<close> is present and is an array, the empty array
  for an empty upstream list.
\<close>

theorem C1_models_envelope_data:
  assumes url: "ListModels_url (endpoint (mh_llamaClient h)) = Inr url"
    and ok: "url_error w url = None"
    and reply: "do_request w (ListModels_request (mh_llamaClient h) url) = Inr resp"
    and st: "StatusCode resp = 200"
    and dec: "decode w (Body resp) = Inr lr"
    and auth: "mh_enableAuth h \<longrightarrow> fst (validateAuth c s) = None"
  shows "\<exists>ms. fst (HandleListModels w h c s) =
                 Inr \<lparr>status = 200, body = ModelsBody \<lparr>mr_Object = ''list'', mr_Data = Some ms\<rparr>\<rparr>
             \<and> length ms = length (elems (Models lr))
             \<and> map m_ID ms = map ls_ID (elems (Models lr))
             \<and> field (encode (ModelsBody \<lparr>mr_Object = ''list'', mr_Data = Some ms\<rparr>)) ''data''
                 = Some (JArray (map encode_Model ms))"
proof -
  let ?xs = "elems (Models lr)"
  let ?ms = "map (translate w (Suc (ticks s)) ?xs) [0..<length ?xs]"
  have L: "fst (ListModels w (mh_llamaClient h) (s\<lparr>ticks := Suc (ticks s)\<rparr>)) = Inr (Inr ?ms)"
    using ListModels_reply [OF url ok reply, of "s\<lparr>ticks := Suc (ticks s)\<rparr>"] st dec by simp
  have R: "fst (HandleListModels w h c s) =
             Inr \<lparr>status = 200, body = ModelsBody \<lparr>mr_Object = ''list'', mr_Data = Some ?ms\<rparr>\<rparr>"
    using auth by (simp add: HandleListModels_fst L NewModelsResponse_def)
  have ids: "map m_ID ?ms = map ls_ID ?xs"
    by (rule nth_equalityI) (simp_all add: translate_def)
  have enc: "field (encode (ModelsBody \<lparr>mr_Object = ''list'', mr_Data = Some ?ms\<rparr>)) ''data''
               = Some (JArray (map encode_Model ?ms))"
    by (simp add: encode_ModelsResponse_def)
  show ?thesis
    using R ids enc by (intro exI [of _ ?ms]) simp
qed

text \<open>
  Claim C1, at a concrete upstream: two upstream models, auth disabled.
\<close>

theorem C1_models_envelope_data_witness:
  "\<exists>ms. fst (HandleListModels (demo_world 200) (NewModelsHandler demo_client False) (demo_ctx None) init) =
          Inr \<lparr>status = 200, body = ModelsBody \<lparr>mr_Object = ''list'', mr_Data = Some ms\<rparr>\<rparr>
      \<and> length ms = 2 \<and> map m_ID ms = [''llama-3.1-8b'', ''granite-7b'']"
  using C1_models_envelope_data [of "NewModelsHandler demo_client False" "''http://ls:8321/v1/models''"
      "demo_world 200" "\<lparr>StatusCode = 200, Body = ''{}''\<rparr>" "\<lparr>Models = Some demo_models\<rparr>"
      "demo_ctx None" init]
  by (auto simp: demo_defs ListModels_url_def last_byte_def elems_def)

text \<open>
  Claim C2. On a successful list call, the i-th translated record has the identifier
  of the i-th upstream record, the object tag \<open>model\<close>, as creation time the Unix seconds of
  the clock reading taken in the i-th iteration of the translation loop, and the owner tag
  \<open>llamastack\<close>, whatever the provider (or any other field) of the upstream record is.
\<close>

theorem C2_translated_record_fields:
  assumes url: "ListModels_url (endpoint c) = Inr url"
    and ok: "url_error w url = None"
    and reply: "do_request w (ListModels_request c url) = Inr resp"
    and st: "StatusCode resp = 200"
    and dec: "decode w (Body resp) = Inr lr"
    and i: "i < length (elems (Models lr))"
  shows "\<exists>ms. fst (ListModels w c s) = Inr (Inr ms)
             \<and> length ms = length (elems (Models lr))
             \<and> ms ! i = \<lparr>m_ID = ls_ID (elems (Models lr) ! i), m_Object = ''model'',
                          m_Created = Unix (clock w (ticks s + i)), m_OwnedBy = ''llamastack''\<rparr>"
proof -
  let ?xs = "elems (Models lr)"
  let ?ms = "map (translate w (ticks s) ?xs) [0..<length ?xs]"
  have "fst (ListModels w c s) = Inr (Inr ?ms)"
    using ListModels_reply [OF url ok reply, of s] st dec by simp
  moreover have "?ms ! i = translate w (ticks s) ?xs i"
    using i by simp
  ultimately show ?thesis
    by (intro exI [of _ ?ms]) (simp add: translate_def)
qed

text \<open>
  Claim C2, at a concrete upstream: the second model, whose upstream provider is
  \<open>ibm\<close>, is owned by \<open>llamastack\<close> and stamped with the second clock reading.
\<close>

theorem C2_translated_record_fields_witness:
  "\<exists>ms. fst (ListModels (demo_world 200) demo_client init) = Inr (Inr ms)
      \<and> ms ! 1 = \<lparr>m_ID = ''granite-7b'', m_Object = ''model'',
                   m_Created = 1700000001, m_OwnedBy = ''llamastack''\<rparr>"
  using C2_translated_record_fields [of demo_client "''http://ls:8321/v1/models''"
      "demo_world 200" "\<lparr>StatusCode = 200, Body = ''{}''\<rparr>" "\<lparr>Models = Some demo_models\<rparr>" 1 init]
  by (auto simp: demo_defs ListModels_url_def last_byte_def elems_def ListModels_request_def Unix_def)

text \<open>
  Claim C3 as stated fails: the upstream answers 201, which is a 2xx status, with a
  body that decodes, and \<open>ListModels\<close> returns the status error carrying 201.
\<close>

theorem C3_status_201_counterexample:
  "fst (ListModels (demo_world 201) demo_client init) = Inr (Inl (StatusError 201 ''{}''))
   \<and> decode (demo_world 201) ''{}'' = Inr \<lparr>Models = Some demo_models\<rparr>
   \<and> (200::int) \<le> 201 \<and> (201::int) < 300"
  using ListModels_reply [of demo_client "''http://ls:8321/v1/models''" "demo_world 201"
      "\<lparr>StatusCode = 201, Body = ''{}''\<rparr>" init]
  by (simp add: demo_defs ListModels_url_def last_byte_def ListModels_request_def)

text \<open>
  Claim C3, amended. \<open>ListModels\<close> fails with the upstream-status error carrying
  \<open>code\<close> and body \<open>b\<close> exactly when the upstream replied, with status \<open>code\<close> and body
  \<open>b\<close>, and \<open>code\<close> is not 200: the test of the code is \<open>!= http.StatusOK\<close>, so a reply
  with status 200 never gives a status error and every other reply, 2xx or not, does.
\<close>

theorem C3_status_error_iff_not_200:
  "fst (ListModels w c s) = Inr (Inl (StatusError code b)) \<longleftrightarrow>
     (\<exists>url resp. ListModels_url (endpoint c) = Inr url \<and> url_error w url = None
        \<and> do_request w (ListModels_request c url) = Inr resp
        \<and> StatusCode resp = code \<and> Body resp = b \<and> code \<noteq> 200)"
proof (cases "ListModels_url (endpoint c)")
  case (Inl p)
  then show ?thesis by (simp add: ListModels_url_panic)
next
  case url: (Inr url)
  show ?thesis
  proof (cases "url_error w url")
    case (Some err)
    then show ?thesis using ListModels_url_error [OF url Some, of s] url by simp
  next
    case None
    show ?thesis
    proof (cases "do_request w (ListModels_request c url)")
      case (Inl err)
      then show ?thesis using ListModels_transport [OF url None Inl, of s] url by simp
    next
      case (Inr resp)
      then show ?thesis
        using ListModels_reply [OF url None Inr, of s] url None
        by (auto split: sum.splits)
    qed
  qed
qed

text \<open>
  Claim C3, amended, at a concrete upstream: a 404 reply is the status error
  carrying 404, a 200 reply is no status error.
\<close>

theorem C3_status_error_iff_not_200_witness:
  "fst (ListModels (demo_world 404) demo_client init) = Inr (Inl (StatusError 404 ''{}''))
   \<and> fst (ListModels (demo_world 200) demo_client init) \<noteq> Inr (Inl (StatusError 200 ''{}''))"
  using C3_status_error_iff_not_200 [of "demo_world 404" demo_client init 404 "''{}''"]
        C3_status_error_iff_not_200 [of "demo_world 200" demo_client init 200 "''{}''"]
  by (simp add: demo_defs ListModels_url_def last_byte_def ListModels_request_def)

text \<open>
  Claim C4. With auth enforced and an Authorization header that fails validation,
  \<open>/v1/models\<close> answers 401 with the error envelope tagged \<open>authentication_error\<close> and the
  trace gains no upstream call. With auth disabled the trace gains no read of a request
  header (reading the Authorization header is the first step of every run of the guard, see
  \<open>validateAuth_reads_header\<close>), and the response is never 401.
\<close>

theorem C4_auth_gate:
  "(mh_enableAuth h \<and> fst (validateAuth c s) \<noteq> None \<longrightarrow>
      fst (HandleListModels w h c s) =
        Inr \<lparr>status = 401,
              body = ErrorBody \<lparr>er_Error = \<lparr>e_Message = ''Authentication required'',
                                            e_Type = ''authentication_error'', e_Code = []\<rparr>\<rparr>\<rparr>
      \<and> filter is_HttpDo (trace (snd (HandleListModels w h c s))) = filter is_HttpDo (trace s))
   \<and> (\<not> mh_enableAuth h \<longrightarrow>
      filter is_GetHeader (trace (snd (HandleListModels w h c s))) = filter is_GetHeader (trace s)
      \<and> (\<forall>r. fst (HandleListModels w h c s) = Inr r \<longrightarrow> status r \<noteq> 401))"
proof (intro conjI impI)
  assume a: "mh_enableAuth h \<and> fst (validateAuth c s) \<noteq> None"
  then obtain err where err: "fst (validateAuth c s) = Some err" by auto
  from a have en: "mh_enableAuth h" by simp
  show "fst (HandleListModels w h c s) =
        Inr \<lparr>status = 401,
              body = ErrorBody \<lparr>er_Error = \<lparr>e_Message = ''Authentication required'',
                                            e_Type = ''authentication_error'', e_Code = []\<rparr>\<rparr>\<rparr>"
    by (simp add: HandleListModels_rejected [OF en err] NewErrorResponse_def)
  show "filter is_HttpDo (trace (snd (HandleListModels w h c s))) = filter is_HttpDo (trace s)"
    by (simp add: HandleListModels_rejected [OF en err])
next
  assume off: "\<not> mh_enableAuth h"
  show "filter is_GetHeader (trace (snd (HandleListModels w h c s))) = filter is_GetHeader (trace s)"
    by (rule HandleListModels_open_trace [OF off])
  show "\<forall>r. fst (HandleListModels w h c s) = Inr r \<longrightarrow> status r \<noteq> 401"
    using off by (auto simp: HandleListModels_fst split: sum.splits)
qed

text \<open>
  Claim C4, at a concrete request carrying \<open>Authorization: Basic abc\<close>, with auth
  enforced and with auth disabled.
\<close>

theorem C4_auth_gate_witness:
  "fst (HandleListModels (demo_world 200) (NewModelsHandler demo_client True) (demo_ctx (Some [''Basic abc''])) init) =
     Inr \<lparr>status = 401,
           body = ErrorBody \<lparr>er_Error = \<lparr>e_Message = ''Authentication required'',
                                         e_Type = ''authentication_error'', e_Code = []\<rparr>\<rparr>\<rparr>
   \<and> filter is_HttpDo (trace (snd (HandleListModels (demo_world 200) (NewModelsHandler demo_client True)
                                     (demo_ctx (Some [''Basic abc''])) init))) = []
   \<and> filter is_GetHeader (trace (snd (HandleListModels (demo_world 200) (NewModelsHandler demo_client False)
                                     (demo_ctx (Some [''Basic abc''])) init))) = []
   \<and> \<not> (\<exists>r. fst (HandleListModels (demo_world 200) (NewModelsHandler demo_client False)
                   (demo_ctx (Some [''Basic abc''])) init) = Inr r \<and> status r = 401)"
  using C4_auth_gate [of "NewModelsHandler demo_client True" "demo_ctx (Some [''Basic abc''])" init "demo_world 200"]
        C4_auth_gate [of "NewModelsHandler demo_client False" "demo_ctx (Some [''Basic abc''])" init "demo_world 200"]
  by (simp add: demo_defs validateAuth_def GetHeader_ctx_def HasPrefix_def)

text \<open>
  Claim C5. The guard decides every request, by three checks in order. The first is on the
  value that \<open>c.GetHeader\<close> returns: no Authorization header, a header with no values and
  a header whose first value is empty all give the missing-header error. A non-empty value
  that does not start with the bytes \<open>Bearer \<close> gives the malformed-header error; the
  value \<open>Bearer \<close> with nothing after it gives the empty-token error; and a value
  \<open>Bearer \<close> followed by any non-empty token is accepted. The guard accepts nothing else:
  it returns no error exactly when the first value of the header is \<open>Bearer \<close> followed by
  a non-empty token. The three errors are distinct.
\<close>

theorem C5_validateAuth_checks:
  "(Header c ''Authorization'' = None \<longrightarrow>
      fst (validateAuth c s) = Some (AuthError ''Missing Authorization header''))
   \<and> (Header c ''Authorization'' = Some [] \<longrightarrow>
      fst (validateAuth c s) = Some (AuthError ''Missing Authorization header''))
   \<and> (Header c ''Authorization'' = Some ([] # vs) \<longrightarrow>
      fst (validateAuth c s) = Some (AuthError ''Missing Authorization header''))
   \<and> (Header c ''Authorization'' = Some (v # vs) \<and> v \<noteq> [] \<and> \<not> HasPrefix v ''Bearer '' \<longrightarrow>
      fst (validateAuth c s) = Some (AuthError ''Invalid Authorization header format''))
   \<and> (Header c ''Authorization'' = Some (v # vs) \<and> v = ''Bearer '' \<longrightarrow>
      fst (validateAuth c s) = Some (AuthError ''Empty token''))
   \<and> (Header c ''Authorization'' = Some (v # vs) \<and> v = ''Bearer '' @ token \<and> token \<noteq> [] \<longrightarrow>
      fst (validateAuth c s) = None)
   \<and> (fst (validateAuth c s) = None \<longleftrightarrow>
        (\<exists>t ws. t \<noteq> [] \<and> Header c ''Authorization'' = Some ((''Bearer '' @ t) # ws)))
   \<and> AuthError ''Missing Authorization header'' \<noteq> AuthError ''Invalid Authorization header format''
   \<and> AuthError ''Missing Authorization header'' \<noteq> AuthError ''Empty token''
   \<and> AuthError ''Invalid Authorization header format'' \<noteq> AuthError ''Empty token''"
proof -
  have acc: "fst (validateAuth c s) = None \<longleftrightarrow>
        (\<exists>t ws. t \<noteq> [] \<and> Header c ''Authorization'' = Some ((''Bearer '' @ t) # ws))"
    by (rule validateAuth_accepts_iff)
  have rest: "(Header c ''Authorization'' = None \<longrightarrow>
      fst (validateAuth c s) = Some (AuthError ''Missing Authorization header''))
   \<and> (Header c ''Authorization'' = Some [] \<longrightarrow>
      fst (validateAuth c s) = Some (AuthError ''Missing Authorization header''))
   \<and> (Header c ''Authorization'' = Some ([] # vs) \<longrightarrow>
      fst (validateAuth c s) = Some (AuthError ''Missing Authorization header''))
   \<and> (Header c ''Authorization'' = Some (v # vs) \<and> v \<noteq> [] \<and> \<not> HasPrefix v ''Bearer '' \<longrightarrow>
      fst (validateAuth c s) = Some (AuthError ''Invalid Authorization header format''))
   \<and> (Header c ''Authorization'' = Some (v # vs) \<and> v = ''Bearer '' \<longrightarrow>
      fst (validateAuth c s) = Some (AuthError ''Empty token''))
   \<and> (Header c ''Authorization'' = Some (v # vs) \<and> v = ''Bearer '' @ token \<and> token \<noteq> [] \<longrightarrow>
      fst (validateAuth c s) = None)"
    by (simp add: validateAuth_fst HasPrefix_def TrimPrefix_def Let_def)
  show ?thesis
    using acc rest by simp
qed

text \<open>
  Claim C5, at concrete requests: no header, a header with no values, a header with an empty
  value, \<open>bearer abc\<close> (the prefix is case-sensitive), \<open>Bearer \<close>, and \<open>Bearer x\<close>.
\<close>

theorem C5_validateAuth_checks_witness:
  "fst (validateAuth (demo_ctx None) init) = Some (AuthError ''Missing Authorization header'')
   \<and> fst (validateAuth (demo_ctx (Some [])) init) = Some (AuthError ''Missing Authorization header'')
   \<and> fst (validateAuth (demo_ctx (Some [[]])) init) = Some (AuthError ''Missing Authorization header'')
   \<and> fst (validateAuth (demo_ctx (Some [''bearer abc''])) init)
       = Some (AuthError ''Invalid Authorization header format'')
   \<and> fst (validateAuth (demo_ctx (Some [''Bearer ''])) init) = Some (AuthError ''Empty token'')
   \<and> fst (validateAuth (demo_ctx (Some [''Bearer x''])) init) = None"
  using C5_validateAuth_checks [where c = "demo_ctx None" and s = init]
        C5_validateAuth_checks [where c = "demo_ctx (Some [])" and s = init]
        C5_validateAuth_checks [where c = "demo_ctx (Some [[]])" and vs = "[]" and s = init]
        C5_validateAuth_checks [where c = "demo_ctx (Some [''bearer abc''])" and v = "''bearer abc''"
                               and vs = "[]" and s = init]
        C5_validateAuth_checks [where c = "demo_ctx (Some [''Bearer ''])" and v = "''Bearer ''"
                               and vs = "[]" and s = init]
        C5_validateAuth_checks [where c = "demo_ctx (Some [''Bearer x''])" and v = "''Bearer x''"
                               and vs = "[]" and token = "''x''" and s = init]
  by (simp add: demo_ctx_def HasPrefix_def)

text \<open>
  Claim C6 as stated fails: the base URL \<open>http://ls/\<close> with one more trailing slash
  gives a different URL, which has \<open>//\<close> between base and path, for the list call and for
  the health call; and the empty base URL gives no URL at all.
\<close>

theorem C6_double_slash_counterexample:
  "ListModels_url ''http://ls/'' = Inr ''http://ls/v1/models''
   \<and> ListModels_url (''http://ls/'' @ ''/'') = Inr ''http://ls//v1/models''
   \<and> Health_url ''http://ls/'' = Inr ''http://ls/health''
   \<and> Health_url (''http://ls/'' @ ''/'') = Inr ''http://ls//health''
   \<and> ListModels_url [] = Inl SliceBoundsOutOfRange"
  by (simp add: ListModels_url_def Health_url_def last_byte_def)

text \<open>
  Claim C6, amended. For every non-empty base URL that does not end in a slash, the
  base URL and the base URL followed by one trailing slash give the same request URL, the
  base, one slash, and the path: \<open>v1/models\<close> for the list call, \<open>health\<close> for the health
  call.
\<close>

theorem C6_single_trailing_slash:
  assumes "ep \<noteq> []" and "last ep \<noteq> CHR ''/''"
  shows "ListModels_url ep = Inr (ep @ ''/v1/models'')
       \<and> ListModels_url (ep @ ''/'') = Inr (ep @ ''/v1/models'')
       \<and> Health_url ep = Inr (ep @ ''/health'')
       \<and> Health_url (ep @ ''/'') = Inr (ep @ ''/health'')"
  using assms by (simp add: ListModels_url_nonempty Health_url_nonempty)

text \<open>
  Claim C6, amended, at the base URL \<open>http://ls:8321\<close>.
\<close>

theorem C6_single_trailing_slash_witness:
  "ListModels_url ''http://ls:8321'' = Inr ''http://ls:8321/v1/models''
   \<and> ListModels_url ''http://ls:8321/'' = Inr ''http://ls:8321/v1/models''
   \<and> Health_url ''http://ls:8321'' = Inr ''http://ls:8321/health''
   \<and> Health_url ''http://ls:8321/'' = Inr ''http://ls:8321/health''"
  using C6_single_trailing_slash [of "''http://ls:8321''"] by simp



text \<open>
  Claim C8. Whenever the list call returns an error, \<open>/v1/models\<close> answers 500 with
  the fixed envelope (generic message, type \<open>internal_error\<close>); for any two upstreams, clients,
  requests and errors, the two responses are equal, so nothing of the error or of the
  upstream body reaches the caller.
\<close>

theorem C8_upstream_errors_same_response:
  assumes "mh_enableAuth h \<longrightarrow> fst (validateAuth c s) = None"
    and "fst (ListModels w (mh_llamaClient h) s1) = Inr (Inl e)"
    and "mh_enableAuth h' \<longrightarrow> fst (validateAuth c' s') = None"
    and "fst (ListModels w' (mh_llamaClient h') s1') = Inr (Inl e')"
  shows "fst (HandleListModels w h c s) =
           Inr \<lparr>status = 500,
                 body = ErrorBody \<lparr>er_Error = \<lparr>e_Message = ''Failed to retrieve models from external service'',
                                               e_Type = ''internal_error'', e_Code = []\<rparr>\<rparr>\<rparr>
       \<and> fst (HandleListModels w' h' c' s') = fst (HandleListModels w h c s)"
proof -
  have "fst (ListModels w (mh_llamaClient h) (s\<lparr>ticks := Suc (ticks s)\<rparr>)) = Inr (Inl e)"
    by (rule ListModels_error_any_state [OF assms(2)])
  moreover have "fst (ListModels w' (mh_llamaClient h') (s'\<lparr>ticks := Suc (ticks s')\<rparr>)) = Inr (Inl e')"
    by (rule ListModels_error_any_state [OF assms(4)])
  ultimately show ?thesis
    using assms(1) assms(3) by (simp add: HandleListModels_fst NewErrorResponse_def)
qed

text \<open>
  Claim C8, at two concrete upstreams: one answers 503 with a body, the other
  refuses the connection.
\<close>

theorem C8_upstream_errors_same_response_witness:
  "fst (HandleListModels (demo_world 503) (NewModelsHandler demo_client False) (demo_ctx None) init) =
     Inr \<lparr>status = 500,
           body = ErrorBody \<lparr>er_Error = \<lparr>e_Message = ''Failed to retrieve models from external service'',
                                         e_Type = ''internal_error'', e_Code = []\<rparr>\<rparr>\<rparr>
   \<and> fst (HandleListModels down_world (NewModelsHandler demo_client True) (demo_ctx (Some [''Bearer t''])) init)
     = fst (HandleListModels (demo_world 503) (NewModelsHandler demo_client False) (demo_ctx None) init)"
proof -
  have a: "fst (ListModels (demo_world 503) demo_client init) = Inr (Inl (StatusError 503 ''{}''))"
    using ListModels_reply [of demo_client "''http://ls:8321/v1/models''" "demo_world 503"
        "\<lparr>StatusCode = 503, Body = ''{}''\<rparr>" init]
    by (simp add: demo_defs ListModels_url_def last_byte_def ListModels_request_def)
  have b: "fst (ListModels down_world demo_client init) = Inr (Inl (RequestFailed ''connection refused''))"
    using ListModels_transport [of demo_client "''http://ls:8321/v1/models''" down_world
        "''connection refused''" init]
    by (simp add: demo_defs ListModels_url_def last_byte_def ListModels_request_def)
  have v: "fst (validateAuth (demo_ctx (Some [''Bearer t''])) init) = None"
    by (simp add: validateAuth_def GetHeader_ctx_def HasPrefix_def TrimPrefix_def demo_ctx_def)
  show ?thesis
    using C8_upstream_errors_same_response [of "NewModelsHandler demo_client False" "demo_ctx None" init
        "demo_world 503" init "StatusError 503 ''{}''"
        "NewModelsHandler demo_client True" "demo_ctx (Some [''Bearer t''])" init
        down_world init "RequestFailed ''connection refused''"] a b v
    by (simp add: NewModelsHandler_def)
qed

text \<open>
  Claim C9. \<open>/live\<close> answers 200 with \<open>alive\<close> true and the current time, adds nothing
  to the trace (no upstream call), and gives the same result whatever the upstream does.
\<close>

theorem C9_liveness_unconditional:
  "fst (HandleLiveness w h c s) =
     Inr \<lparr>status = 200,
           body = H [(''alive'', AnyBool True), (''timestamp'', AnyTime (clock w (ticks s)))]\<rparr>
   \<and> trace (snd (HandleLiveness w h c s)) = trace s
   \<and> HandleLiveness (w\<lparr>url_error := u, do_request := d, decode := dc\<rparr>) h c s = HandleLiveness w h c s
   \<and> field (encode (H [(''alive'', AnyBool True), (''timestamp'', AnyTime (clock w (ticks s)))])) ''alive''
       = Some (JBool True)"
  by (simp add: HandleLiveness_eq)

text \<open>
  Claim C10. The slice \<open>endpoint[len(endpoint)-1:]\<close> is out of bounds for the empty base
  URL, where \<open>ListModels\<close> and \<open>Health\<close> panic. For a non-empty base URL the slice is the
  last byte and both operations return (a result or an error, no panic). \<open>LoadConfig\<close>
  returns only configurations whose endpoint is non-empty, so a client built from a loaded
  configuration never panics.
\<close>

theorem C10_last_byte_slice_safety:
  "last_byte [] = Inl SliceBoundsOutOfRange
   \<and> fst (ListModels w (NewClient [] key) s) = Inl SliceBoundsOutOfRange
   \<and> fst (Health w (NewClient [] key) s) = Inl SliceBoundsOutOfRange
   \<and> (endpoint c \<noteq> [] \<longrightarrow>
        last_byte (endpoint c) = Inr [last (endpoint c)]
        \<and> (\<exists>r. fst (ListModels w c s) = Inr r) \<and> (\<exists>r. fst (Health w c s) = Inr r))
   \<and> (\<forall>cfg. LoadConfig getenv = Inr cfg \<longrightarrow>
        LlamaStackEndpoint cfg \<noteq> []
        \<and> (\<exists>r. fst (ListModels w (NewClient (LlamaStackEndpoint cfg) (LlamaStackAPIKey cfg)) s) = Inr r)
        \<and> (\<exists>r. fst (Health w (NewClient (LlamaStackEndpoint cfg) (LlamaStackAPIKey cfg)) s) = Inr r))"
proof (intro conjI impI allI)
  fix cfg assume cfg: "LoadConfig getenv = Inr cfg"
  then show ne: "LlamaStackEndpoint cfg \<noteq> []" by (rule LoadConfig_endpoint)
  show "\<exists>r. fst (ListModels w (NewClient (LlamaStackEndpoint cfg) (LlamaStackAPIKey cfg)) s) = Inr r"
    by (rule ListModels_no_panic) (simp add: NewClient_def ne)
  show "\<exists>r. fst (Health w (NewClient (LlamaStackEndpoint cfg) (LlamaStackAPIKey cfg)) s) = Inr r"
    by (rule Health_no_panic) (simp add: NewClient_def ne)
qed (simp_all add: last_byte_Nil last_byte_nonempty ListModels_panic Health_panic NewClient_def
       ListModels_no_panic Health_no_panic)

text \<open>
  Claim C10, at the base URL \<open>http://ls:8321\<close> and at an environment that sets
  only \<open>LLAMASTACK_ENDPOINT\<close>.
\<close>

theorem C10_last_byte_slice_safety_witness:
  "last_byte (endpoint demo_client) = Inr ''1''
   \<and> (\<exists>r. fst (ListModels (demo_world 200) demo_client init) = Inr r)
   \<and> (\<exists>r. fst (Health (demo_world 200) demo_client init) = Inr r)
   \<and> (\<exists>cfg. LoadConfig demo_env = Inr cfg \<and> LlamaStackEndpoint cfg = ''http://ls:8321''
        \<and> (\<exists>r. fst (ListModels (demo_world 200) (NewClient (LlamaStackEndpoint cfg) (LlamaStackAPIKey cfg)) init)
                 = Inr r))"
proof -
  have cfg: "LoadConfig demo_env =
      Inr \<lparr>Address = ''0.0.0.0'', Port = ''8080'', LlamaStackEndpoint = ''http://ls:8321'',
           LlamaStackAPIKey = [], EnableAuth = True, LogLevel = ''info'', LogJSON = False\<rparr>"
    by (simp add: LoadConfig_def getEnvOrDefault_def demo_env_def)
  show ?thesis
    using C10_last_byte_slice_safety [where c = demo_client and w = "demo_world 200" and s = init
        and getenv = demo_env] cfg
    by (simp add: demo_client_def NewClient_def)
qed

end
